theory Spec2Isabelle
  imports Main "HOL-Library.Multiset"
begin

section \<open>Values that cross the boundary of the server\<close>

text \<open>
  The handlers of \<^verbatim>\<open>server.js\<close> answer with \<^verbatim>\<open>res.status(n).json(v)\<close>, with
  \<^verbatim>\<open>res.status(n).send(text)\<close>, or hand a file to the framework (\<^verbatim>\<open>res.download\<close>,
  \<^verbatim>\<open>res.sendFile\<close>). A JSON value is a datatype, so that a string and an object with
  fields are different values, as they are for a client.
\<close>

datatype json =
    JString string
  | JNumber nat
  | JDate nat
  | JArray "json list"
  | JObject "(string \<times> json) list"

datatype thrown = Error string | NonError

text \<open>
  \<open>SendFile\<close> is a file that the framework has sent. \<open>Next\<close> is a transfer that the
  framework started and that failed afterwards: the error goes to the framework
  (\<^verbatim>\<open>next\<close>), which answers with a page of its own, and no \<^verbatim>\<open>catch\<close> clause of
  \<^verbatim>\<open>server.js\<close> runs.
\<close>

datatype reply =
    Json nat json
  | Text nat string
  | SendFile string
  | Next thrown

text \<open>
  What a \<^verbatim>\<open>catch\<close> clause receives is a \<open>thrown\<close> value: an \<^verbatim>\<open>Error\<close> object with
  its message, or any other value. Both handlers read it with
  \<^verbatim>\<open>err instanceof Error ? err.message : 'Unknown error'\<close>.
\<close>

fun errorMessage :: "thrown \<Rightarrow> string" where
  "errorMessage (Error message) = message"
| "errorMessage NonError = ''Unknown error''"

section \<open>The upload directory\<close>

text \<open>
  \<^verbatim>\<open>fs.statSync\<close> yields the size, the creation time and the directory flag of an entry.
  An entry of the directory carries these, and whether \<^verbatim>\<open>statSync\<close> or \<^verbatim>\<open>unlinkSync\<close>
  raise on it (no permission, an I/O error): what an entry is and what a call on it
  reports are kept apart.
\<close>

record stats =
  stats_size :: nat
  birthtime :: nat
  isDirectory :: bool

record node =
  node_stats :: stats
  stat_throws :: "thrown option"
  unlink_throws :: "thrown option"

text \<open>
  The state of the file system as the handlers see it: whether \<^verbatim>\<open>uploadsDir\<close> exists,
  whether reading it raises, its entries in the order \<^verbatim>\<open>readdirSync\<close> returns them, the
  request names that are no entry of the directory although \<^verbatim>\<open>path.join\<close> resolves
  them to an existing path (\<^verbatim>\<open>.\<close>, or a name with \<^verbatim>\<open>..\<close> segments such as
  \<^verbatim>\<open>../server.js\<close>, the running script beside the directory), and the entries that are
  symbolic links to nothing: \<^verbatim>\<open>readdirSync\<close> lists them and \<^verbatim>\<open>existsSync\<close>, which
  follows links, answers false on them.
  \<^verbatim>\<open>path.join(uploadsDir, file)\<close> addresses the entry named \<^verbatim>\<open>file\<close>; the model
  addresses an entry by that name.
\<close>

record fs =
  dir_exists :: bool
  readdir_throws :: "thrown option"
  entries :: "(string \<times> node) list"
  other_paths :: "string list"
  dangling :: "string list"

definition lookup :: "fs \<Rightarrow> string \<Rightarrow> node option" where
  "lookup f file = (if dir_exists f then map_of (entries f) file else None)"

definition existsSync_uploadsDir :: "fs \<Rightarrow> bool" where
  "existsSync_uploadsDir f = dir_exists f"

definition existsSync :: "fs \<Rightarrow> string \<Rightarrow> bool" where
  "existsSync f file =
     ((lookup f file \<noteq> None \<and> file \<notin> set (dangling f)) \<or> file \<in> set (other_paths f))"

definition readdirSync :: "fs \<Rightarrow> thrown + string list" where
  "readdirSync f =
     (if \<not> dir_exists f then Inl (Error ''ENOENT: no such file or directory, scandir'')
      else case readdir_throws f of
             Some err \<Rightarrow> Inl err
           | None \<Rightarrow> Inr (map fst (entries f)))"

definition statSync :: "fs \<Rightarrow> string \<Rightarrow> thrown + stats" where
  "statSync f file =
     (case lookup f file of
        None \<Rightarrow> Inl (Error ''ENOENT: no such file or directory, stat'')
      | Some n \<Rightarrow> (case stat_throws n of
                     Some err \<Rightarrow> Inl err
                   | None \<Rightarrow> Inr (node_stats n)))"

definition unlinkSync :: "fs \<Rightarrow> string \<Rightarrow> thrown + fs" where
  "unlinkSync f file =
     (case lookup f file of
        None \<Rightarrow> Inl (Error ''ENOENT: no such file or directory, unlink'')
      | Some n \<Rightarrow> (case unlink_throws n of
                     Some err \<Rightarrow> Inl err
                   | None \<Rightarrow> Inr (f\<lparr>entries := filter (\<lambda>p. fst p \<noteq> file) (entries f)\<rparr>)))"

section \<open>Strings\<close>

definition startsWith :: "string \<Rightarrow> string \<Rightarrow> bool" where
  "startsWith s p = (take (length p) s = p)"

fun includes_str :: "string \<Rightarrow> string \<Rightarrow> bool" where
  "includes_str [] p = (p = [])"
| "includes_str (c # cs) p = (startsWith (c # cs) p \<or> includes_str cs p)"

definition digit :: "nat \<Rightarrow> char" where
  "digit d = ''0123456789'' ! d"

fun show_nat :: "nat \<Rightarrow> string" where
  "show_nat n = (if n < 10 then [digit n] else show_nat (n div 10) @ [digit (n mod 10)])"

section \<open>The clear-cache handler\<close>

text \<open>
  The loop of lines 148 to 166. Each pass runs \<^verbatim>\<open>statSync\<close>, the directory test and
  \<^verbatim>\<open>unlinkSync\<close> inside one \<^verbatim>\<open>try\<close>; the \<^verbatim>\<open>catch\<close> pushes the string
  \<^verbatim>\<open>`${file}: ${errorMessage}`\<close> and the loop goes on.
\<close>

definition error_entry :: "string \<Rightarrow> thrown \<Rightarrow> json" where
  "error_entry file err = JString (file @ '': '' @ errorMessage err)"

fun delete_loop :: "string list \<Rightarrow> fs \<Rightarrow> nat \<Rightarrow> json list \<Rightarrow> nat \<times> json list \<times> fs" where
  "delete_loop [] f deletedCount errors = (deletedCount, errors, f)"
| "delete_loop (file # files) f deletedCount errors =
     (case statSync f file of
        Inl err \<Rightarrow> delete_loop files f deletedCount (errors @ [error_entry file err])
      | Inr st \<Rightarrow>
          if isDirectory st then delete_loop files f deletedCount errors
          else (case unlinkSync f file of
                  Inl err \<Rightarrow> delete_loop files f deletedCount (errors @ [error_entry file err])
                | Inr f' \<Rightarrow> delete_loop files f' (deletedCount + 1) errors))"

definition clear_filter :: "string \<Rightarrow> bool" where
  "clear_filter file = (\<not> startsWith file ''.'' \<and> file \<noteq> ''test'')"

definition clear_cache_reply :: "nat \<Rightarrow> json list \<Rightarrow> reply" where
  "clear_cache_reply deletedCount errors =
     (if length errors > 0 then
        Json 207 (JObject
          [(''message'', JString (''Cache partially cleared. '' @ show_nat deletedCount
               @ '' files deleted, '' @ show_nat (length errors) @ '' errors.'')),
           (''deletedCount'', JNumber deletedCount),
           (''errors'', JArray errors)])
      else
        Json 200 (JObject
          [(''message'', JString ''Cache cleared successfully''),
           (''deletedCount'', JNumber deletedCount)]))"

definition clear_cache_handler :: "fs \<Rightarrow> reply \<times> fs" where
  "clear_cache_handler f =
     (if \<not> existsSync_uploadsDir f then
        (Json 200 (JObject [(''message'', JString ''No cache to clear'')]), f)
      else case readdirSync f of
        Inl error \<Rightarrow>
          (Json 500 (JObject
             [(''error'', JString (''Failed to clear cache: '' @ errorMessage error))]), f)
      | Inr listing \<Rightarrow>
          (case delete_loop (filter clear_filter listing) f 0 [] of
             (deletedCount, errors, f') \<Rightarrow> (clear_cache_reply deletedCount errors, f')))"

text \<open>
  One pass of the loop on an entry, read off the three ways it can end: the entry is
  skipped (\<^verbatim>\<open>statSync\<close> answers and reports a directory), it is deleted, or a call
  raised and the \<^verbatim>\<open>catch\<close> clause ran.
\<close>

definition skipped :: "node \<Rightarrow> bool" where
  "skipped n = (stat_throws n = None \<and> isDirectory (node_stats n))"

definition deletable :: "node \<Rightarrow> bool" where
  "deletable n = (stat_throws n = None \<and> \<not> isDirectory (node_stats n) \<and> unlink_throws n = None)"

definition failure :: "node \<Rightarrow> thrown option" where
  "failure n =
     (case stat_throws n of
        Some err \<Rightarrow> Some err
      | None \<Rightarrow> if isDirectory (node_stats n) then None else unlink_throws n)"

fun failures :: "(string \<times> node) list \<Rightarrow> json list" where
  "failures [] = []"
| "failures ((file, n) # ps) =
     (case failure n of Some err \<Rightarrow> error_entry file err # failures ps | None \<Rightarrow> failures ps)"

text \<open>
  The entries the loop attempts to delete: those that pass the name filter and are not
  skipped as directories.
\<close>

definition attempted :: "fs \<Rightarrow> (string \<times> node) list" where
  "attempted f = filter (\<lambda>p. clear_filter (fst p) \<and> \<not> skipped (snd p)) (entries f)"

text \<open>
  The eligible items in the words of the specification: every entry of the listing except
  the hidden ones, the reserved \<^verbatim>\<open>test\<close> entry and the subdirectories.
\<close>

definition eligible :: "fs \<Rightarrow> (string \<times> node) list" where
  "eligible f =
     filter (\<lambda>p. \<not> startsWith (fst p) ''.'' \<and> fst p \<noteq> ''test'' \<and> \<not> isDirectory (node_stats (snd p)))
       (entries f)"

text \<open>
  The \<^verbatim>\<open>ClearCacheResult\<close> of the specification that a reply of the route stands for
  (section 6 of the specification): \<^verbatim>\<open>{message, deletedCount}\<close> with status 200 is a full
  success, \<^verbatim>\<open>{message, deletedCount, errors}\<close> with status 207 a partial one, the message
  \<^verbatim>\<open>No cache to clear\<close> with status 200 stands for nothing deleted and no error, and a
  reply with status 500 is no result.
\<close>

definition clear_cache_result :: "reply \<Rightarrow> (nat \<times> json list) option" where
  "clear_cache_result r =
     (case r of
        Json status (JObject members) \<Rightarrow>
          if status = 200 \<and> members = [(''message'', JString ''No cache to clear'')] then Some (0, [])
          else if status = 200 then
            (case map_of members ''deletedCount'' of
               Some (JNumber deletedCount) \<Rightarrow> Some (deletedCount, [])
             | _ \<Rightarrow> None)
          else if status = 207 then
            (case (map_of members ''deletedCount'', map_of members ''errors'') of
               (Some (JNumber deletedCount), Some (JArray errors)) \<Rightarrow> Some (deletedCount, errors)
             | _ \<Rightarrow> None)
          else None
      | _ \<Rightarrow> None)"

text \<open>
  An entry of \<^verbatim>\<open>errors\<close> in the shape the specification gives it: a record with the
  fields \<^verbatim>\<open>itemName\<close> and \<^verbatim>\<open>message\<close>.
\<close>

definition item_record :: "string \<Rightarrow> json \<Rightarrow> bool" where
  "item_record itemName j =
     (case j of
        JObject [(k1, JString v1), (k2, JString v2)] \<Rightarrow>
          k1 = ''itemName'' \<and> v1 = itemName \<and> k2 = ''message''
      | _ \<Rightarrow> False)"

section \<open>The list handler\<close>

definition file_descriptor :: "string \<Rightarrow> stats \<Rightarrow> json" where
  "file_descriptor file st =
     JObject [(''filename'', JString file),
              (''size'', JNumber (stats_size st)),
              (''createdAt'', JDate (birthtime st))]"

text \<open>
  The callback of \<^verbatim>\<open>.map\<close> calls \<^verbatim>\<open>statSync\<close>, which may raise: the first entry on
  which it does ends the whole \<^verbatim>\<open>try\<close> block.
\<close>

fun describe_each :: "fs \<Rightarrow> string list \<Rightarrow> thrown + json list" where
  "describe_each f [] = Inr []"
| "describe_each f (file # files) =
     (case statSync f file of
        Inl err \<Rightarrow> Inl err
      | Inr st \<Rightarrow>
          (case describe_each f files of
             Inl err \<Rightarrow> Inl err
           | Inr ds \<Rightarrow> Inr (file_descriptor file st # ds)))"

definition list_failed :: reply where
  "list_failed = Json 500 (JObject [(''error'', JString ''Failed to list files'')])"

definition list_handler :: "fs \<Rightarrow> reply" where
  "list_handler f =
     (case readdirSync f of
        Inl error \<Rightarrow> list_failed
      | Inr listing \<Rightarrow>
          (case describe_each f (filter (\<lambda>file. \<not> startsWith file ''.'') listing) of
             Inl error \<Rightarrow> list_failed
           | Inr files \<Rightarrow> Json 200 (JArray files)))"

text \<open>
  The entries the list handler describes, and the descriptor of an entry whose
  \<^verbatim>\<open>statSync\<close> answers.
\<close>

definition listed :: "fs \<Rightarrow> (string \<times> node) list" where
  "listed f = filter (\<lambda>p. \<not> startsWith (fst p) ''.'') (entries f)"

definition descriptor_of :: "string \<times> node \<Rightarrow> json" where
  "descriptor_of p = file_descriptor (fst p) (node_stats (snd p))"

section \<open>The download handler\<close>

text \<open>
  \<^verbatim>\<open>res.download\<close> belongs to the framework. The call itself may raise inside the
  \<^verbatim>\<open>try\<close> block (\<open>res_download\<close>). When it returns, the transfer has only been started:
  the handler passes no callback, so a failure of the transfer (\<open>transfer\<close>: an unreadable
  file, a directory, a file that has vanished) is reported to the framework after the
  handler has returned.
\<close>

definition file_not_found :: reply where
  "file_not_found = Json 404 (JObject [(''error'', JString ''File not found'')])"

definition download_failed :: reply where
  "download_failed = Json 500 (JObject [(''error'', JString ''Failed to download file'')])"

definition download_handler ::
  "(string \<Rightarrow> thrown option) \<Rightarrow> (string \<Rightarrow> thrown option) \<Rightarrow> fs \<Rightarrow> string \<Rightarrow> reply" where
  "download_handler res_download transfer f filename =
     (if \<not> existsSync f filename then file_not_found
      else case res_download filename of
             Some error \<Rightarrow> download_failed
           | None \<Rightarrow> (case transfer filename of
                        Some err \<Rightarrow> Next err
                      | None \<Rightarrow> SendFile filename))"

section \<open>Loading the module and starting the server\<close>

text \<open>
  What the module meets when it is loaded and started: whether \<^verbatim>\<open>NODE_ENV\<close> is
  \<^verbatim>\<open>production\<close> and the build of the front end exists; each initialisation resolves
  (\<open>None\<close>) or raises; loading the routes of the build succeeds, raises before
  \<^verbatim>\<open>app.use('/api/files', fileRoutes)\<close> or raises after it; \<^verbatim>\<open>app.listen\<close> may raise.
\<close>

datatype route_loading = Loaded | Fails_before_mount thrown | Fails_after_mount thrown

record env =
  production :: bool
  frontend_build_exists :: bool
  initializeStorage :: "thrown option"
  initializeCosmosDb :: "thrown option"
  load_routes :: route_loading
  listen_throws :: "thrown option"

datatype route = ClientRouting | BuildFileRoutes | FallbackFileRoutes | HealthRoute

record app =
  blobStorageInitialized :: bool
  routes :: "route list"
  listening :: bool

text \<open>
  Lines 32 to 55 run when the module is loaded, before \<^verbatim>\<open>startServer\<close> is called: in
  production mode with a build of the front end, \<^verbatim>\<open>app.get('*', ...)\<close> is registered
  first.
\<close>

definition load_module :: "env \<Rightarrow> app" where
  "load_module e =
     \<lparr>blobStorageInitialized = False,
      routes = (if production e then (if frontend_build_exists e then [ClientRouting] else []) else []),
      listening = False\<rparr>"

definition startServer :: "env \<Rightarrow> app \<Rightarrow> thrown + app" where
  "startServer e a0 =
     (let a1 = (case initializeStorage e of
                  None \<Rightarrow> a0\<lparr>blobStorageInitialized := True\<rparr>
                | Some error \<Rightarrow> a0);
          a2 = (case initializeCosmosDb e of
                  None \<Rightarrow> a1
                | Some error \<Rightarrow> a1);
          a3 = (case load_routes e of
                  Loaded \<Rightarrow> a2\<lparr>routes := routes a2 @ [BuildFileRoutes]\<rparr>
                | Fails_before_mount error \<Rightarrow> a2\<lparr>routes := routes a2 @ [FallbackFileRoutes]\<rparr>
                | Fails_after_mount error \<Rightarrow>
                    a2\<lparr>routes := routes a2 @ [BuildFileRoutes, FallbackFileRoutes]\<rparr>);
          a4 = a3\<lparr>routes := routes a3 @ [HealthRoute]\<rparr>
      in case listen_throws e of
           Some error \<Rightarrow> Inl error
         | None \<Rightarrow> Inr (a4\<lparr>listening := True\<rparr>))"

text \<open>
  The last lines of the file: a rejection of \<^verbatim>\<open>startServer\<close> ends the process with
  \<^verbatim>\<open>process.exit(1)\<close>.
\<close>

datatype process = Serving app | Exited nat

definition main :: "env \<Rightarrow> process" where
  "main e = (case startServer e (load_module e) of Inl error \<Rightarrow> Exited 1 | Inr a \<Rightarrow> Serving a)"

section \<open>Requests\<close>

datatype file_request = ListFiles | DownloadFile string | ClearCache

datatype request = Files file_request | Health

datatype http_method = GET | POST

fun method_of :: "request \<Rightarrow> http_method" where
  "method_of Health = GET"
| "method_of (Files ListFiles) = GET"
| "method_of (Files (DownloadFile filename)) = GET"
| "method_of (Files ClearCache) = POST"

fun url_of :: "request \<Rightarrow> string" where
  "url_of Health = ''/api/health''"
| "url_of (Files ListFiles) = ''/api/files/list''"
| "url_of (Files (DownloadFile filename)) = ''/api/files/download/'' @ filename"
| "url_of (Files ClearCache) = ''/api/files/clear-cache''"

text \<open>
  The handler of \<^verbatim>\<open>app.get('*', ...)\<close>, lines 42 to 51: it ends every request it
  receives, with 404 for the addresses under \<^verbatim>\<open>/api\<close>.
\<close>

definition client_routing_handler :: "string \<Rightarrow> reply" where
  "client_routing_handler url =
     (if startsWith url ''/api'' \<or> startsWith url ''/uploads'' \<or> includes_str url ''.''
      then Text 404 ''Not found''
      else SendFile ''index.html'')"

definition health_handler :: "app \<Rightarrow> reply" where
  "health_handler a =
     Json 200 (JObject
       [(''status'', JString ''ok''),
        (''blobStorage'', JString (if blobStorageInitialized a then ''connected'' else ''fallback''))])"

fun fallback_routes ::
  "(string \<Rightarrow> thrown option) \<Rightarrow> (string \<Rightarrow> thrown option) \<Rightarrow> file_request \<Rightarrow> fs \<Rightarrow> reply \<times> fs" where
  "fallback_routes res_download transfer ListFiles f = (list_handler f, f)"
| "fallback_routes res_download transfer (DownloadFile filename) f =
     (download_handler res_download transfer f filename, f)"
| "fallback_routes res_download transfer ClearCache f = clear_cache_handler f"

text \<open>
  What one registered route does with a request: it answers, or the request goes on to
  the next route (\<open>None\<close>). \<^verbatim>\<open>app.get\<close> registers for GET requests only. The router
  \<^verbatim>\<open>fileRoutes\<close> of the build (\<^verbatim>\<open>dist/routes/fileRoutes\<close>) is not among the sources and
  is a parameter.
\<close>

fun answer ::
  "(file_request \<Rightarrow> fs \<Rightarrow> (reply \<times> fs) option) \<Rightarrow> (string \<Rightarrow> thrown option) \<Rightarrow>
     (string \<Rightarrow> thrown option) \<Rightarrow> app \<Rightarrow> route \<Rightarrow> request \<Rightarrow> fs \<Rightarrow> (reply \<times> fs) option" where
  "answer fileRoutes res_download transfer a ClientRouting req f =
     (if method_of req = GET then Some (client_routing_handler (url_of req), f) else None)"
| "answer fileRoutes res_download transfer a BuildFileRoutes (Files r) f = fileRoutes r f"
| "answer fileRoutes res_download transfer a BuildFileRoutes Health f = None"
| "answer fileRoutes res_download transfer a FallbackFileRoutes (Files r) f =
     Some (fallback_routes res_download transfer r f)"
| "answer fileRoutes res_download transfer a FallbackFileRoutes Health f = None"
| "answer fileRoutes res_download transfer a HealthRoute Health f = Some (health_handler a, f)"
| "answer fileRoutes res_download transfer a HealthRoute (Files r) f = None"

text \<open>
  The routes are tried in the order of their registration. The middleware registered
  before them (CORS, the JSON body parser, logging, the static files of \<^verbatim>\<open>/uploads\<close>
  and of the build) passes the requests of the four routes on. A request that no route
  answers gets the page of the framework (\<open>None\<close>).
\<close>

fun dispatch ::
  "(file_request \<Rightarrow> fs \<Rightarrow> (reply \<times> fs) option) \<Rightarrow> (string \<Rightarrow> thrown option) \<Rightarrow>
     (string \<Rightarrow> thrown option) \<Rightarrow> app \<Rightarrow> route list \<Rightarrow> request \<Rightarrow> fs \<Rightarrow> (reply \<times> fs) option" where
  "dispatch fileRoutes res_download transfer a [] req f = None"
| "dispatch fileRoutes res_download transfer a (rt # rts) req f =
     (case answer fileRoutes res_download transfer a rt req f of
        Some x \<Rightarrow> Some x
      | None \<Rightarrow> dispatch fileRoutes res_download transfer a rts req f)"

definition serve ::
  "(file_request \<Rightarrow> fs \<Rightarrow> (reply \<times> fs) option) \<Rightarrow> (string \<Rightarrow> thrown option) \<Rightarrow>
     (string \<Rightarrow> thrown option) \<Rightarrow> app \<Rightarrow> request \<Rightarrow> fs \<Rightarrow> (reply \<times> fs) option" where
  "serve fileRoutes res_download transfer a req f =
     (if \<not> listening a then None
      else dispatch fileRoutes res_download transfer a (routes a) req f)"

text \<open>
  The answer of the process that was loaded and started in the environment \<open>e\<close>. A process
  that has exited answers nothing.
\<close>

definition request_to ::
  "env \<Rightarrow> (file_request \<Rightarrow> fs \<Rightarrow> (reply \<times> fs) option) \<Rightarrow> (string \<Rightarrow> thrown option) \<Rightarrow>
     (string \<Rightarrow> thrown option) \<Rightarrow> request \<Rightarrow> fs \<Rightarrow> (reply \<times> fs) option" where
  "request_to e fileRoutes res_download transfer req f =
     (case main e of
        Serving a \<Rightarrow> serve fileRoutes res_download transfer a req f
      | Exited code \<Rightarrow> None)"

section \<open>Example directories\<close>

definition plain_file :: "nat \<Rightarrow> nat \<Rightarrow> node" where
  "plain_file sz t =
     \<lparr>node_stats = \<lparr>stats_size = sz, birthtime = t, isDirectory = False\<rparr>,
      stat_throws = None, unlink_throws = None\<rparr>"

definition directory :: "nat \<Rightarrow> node" where
  "directory t =
     \<lparr>node_stats = \<lparr>stats_size = 4096, birthtime = t, isDirectory = True\<rparr>,
      stat_throws = None, unlink_throws = None\<rparr>"

definition uploads :: "(string \<times> node) list \<Rightarrow> fs" where
  "uploads es =
     \<lparr>dir_exists = True, readdir_throws = None, entries = es, other_paths = [], dangling = []\<rparr>"

definition no_uploads :: fs where
  "no_uploads =
     \<lparr>dir_exists = False, readdir_throws = None, entries = [], other_paths = [], dangling = []\<rparr>"

definition xyz_dir :: fs where
  "xyz_dir = uploads
     [(''x'', plain_file 1 0),
      (''y'', (plain_file 1 0)\<lparr>unlink_throws := Some (Error ''EPERM: operation not permitted, unlink'')\<rparr>),
      (''z'', plain_file 1 0)]"

definition unreadable_sub :: fs where
  "unreadable_sub = uploads
     [(''sub'', (directory 0)\<lparr>stat_throws := Some (Error ''EACCES: permission denied, stat'')\<rparr>)]"

definition unlistable :: fs where
  "unlistable =
     \<lparr>dir_exists = True, readdir_throws = Some (Error ''EACCES: permission denied, scandir''),
      entries = [(''a.txt'', plain_file 10 0)], other_paths = [], dangling = []\<rparr>"

definition abc_dir :: fs where
  "abc_dir = uploads
     [(''a.txt'', plain_file 10 100),
      (''.hidden'', (plain_file 5 200)\<lparr>stat_throws := Some (Error ''EACCES: permission denied, stat'')\<rparr>),
      (''b.txt'', plain_file 20 300)]"

definition mixed_dir :: fs where
  "mixed_dir = uploads [(''sub'', directory 7), (''test'', directory 8), (''a.txt'', plain_file 10 9)]"

definition scenario_dir :: fs where
  "scenario_dir = uploads
     [(''a.txt'', plain_file 10 0), (''.git'', directory 0), (''test'', directory 0), (''sub'', directory 0)]"

definition unreadable_sub_then_file :: fs where
  "unreadable_sub_then_file = uploads
     [(''sub'', (directory 0)\<lparr>stat_throws := Some (Error ''EACCES: permission denied, stat'')\<rparr>),
      (''a.txt'', plain_file 10 0)]"

definition never_raises :: "string \<Rightarrow> thrown option" where
  "never_raises filename = None"

definition transfer_fails :: "string \<Rightarrow> thrown option" where
  "transfer_fails filename = Some (Error ''EIO: i/o error, read'')"

definition blob_down :: env where
  "blob_down =
     \<lparr>production = False, frontend_build_exists = False,
      initializeStorage = Some (Error ''connect ETIMEDOUT''), initializeCosmosDb = None,
      load_routes = Fails_before_mount (Error ''Cannot find module ./dist/routes/fileRoutes''),
      listen_throws = None\<rparr>"

definition production_blob_down :: env where
  "production_blob_down = blob_down\<lparr>production := True, frontend_build_exists := True\<rparr>"

definition no_build_routes :: "file_request \<Rightarrow> fs \<Rightarrow> (reply \<times> fs) option" where
  "no_build_routes r f = None"

text \<open>
  The directory of a running server: \<^verbatim>\<open>uploads\<close> is empty, and \<^verbatim>\<open>server.js\<close> sits
  beside it, so \<^verbatim>\<open>path.join(uploadsDir, '../server.js')\<close> is an existing file.
\<close>

definition beside_server :: fs where
  "beside_server = (uploads [])\<lparr>other_paths := [''../server.js'']\<rparr>"

section \<open>Facts about the model\<close>

declare show_nat.simps [simp del]

lemma show_nat_digit: "n < 10 \<Longrightarrow> show_nat n = [digit n]"
  by (subst show_nat.simps) simp

lemma show_nat_small: "show_nat 0 = ''0''" "show_nat 1 = ''1''" "show_nat 2 = ''2''"
  by (simp_all add: show_nat_digit digit_def)

lemma node_cases:
  obtains (skip) "skipped n" "\<not> deletable n" "failure n = None"
  | (del) "deletable n" "\<not> skipped n" "failure n = None"
  | (fail) err where "failure n = Some err" "\<not> skipped n" "\<not> deletable n"
  by (cases "stat_throws n"; cases "unlink_throws n"; cases "isDirectory (node_stats n)")
     (auto simp: skipped_def deletable_def failure_def)

lemma lookup_in:
  "dir_exists f \<Longrightarrow> distinct (map fst (entries f)) \<Longrightarrow> (nm, n) \<in> set (entries f) \<Longrightarrow> lookup f nm = Some n"
  by (simp add: lookup_def)

lemma pass_skipped:
  "lookup f nm = Some n \<Longrightarrow> skipped n \<Longrightarrow>
   delete_loop (nm # files) f c errs = delete_loop files f c errs"
  by (simp add: skipped_def statSync_def)

lemma pass_deleted:
  "lookup f nm = Some n \<Longrightarrow> deletable n \<Longrightarrow>
   delete_loop (nm # files) f c errs
     = delete_loop files (f\<lparr>entries := filter (\<lambda>q. fst q \<noteq> nm) (entries f)\<rparr>) (Suc c) errs"
  by (simp add: deletable_def statSync_def unlinkSync_def)

lemma pass_failed:
  "lookup f nm = Some n \<Longrightarrow> failure n = Some err \<Longrightarrow>
   delete_loop (nm # files) f c errs = delete_loop files f c (errs @ [error_entry nm err])"
  by (auto simp: failure_def statSync_def unlinkSync_def split: option.splits if_splits)

lemma loop_char:
  assumes "dir_exists f" "distinct (map fst (entries f))" "set ps \<subseteq> set (entries f)" "distinct (map fst ps)"
  shows "delete_loop (map fst ps) f c errs =
    (c + length (filter (\<lambda>p. deletable (snd p)) ps),
     errs @ failures ps,
     f\<lparr>entries := filter (\<lambda>p. \<not> (p \<in> set ps \<and> deletable (snd p))) (entries f)\<rparr>)"
  using assms
proof (induction ps arbitrary: f c errs)
  case Nil
  then show ?case by simp
next
  case (Cons p ps)
  obtain nm n where p: "p = (nm, n)" by (cases p)
  have lk: "lookup f nm = Some n" using Cons.prems p by (auto intro: lookup_in)
  have sub: "set ps \<subseteq> set (entries f)" and dps: "distinct (map fst ps)" and nin: "nm \<notin> fst ` set ps"
    using Cons.prems p by auto
  note IH = Cons.IH[OF _ _ _ dps]
  show ?case
  proof (cases n rule: node_cases)
    case skip
    have "filter (\<lambda>q. \<not> (q \<in> set (p # ps) \<and> deletable (snd q))) (entries f)
        = filter (\<lambda>q. \<not> (q \<in> set ps \<and> deletable (snd q))) (entries f)"
      using skip p by (intro filter_cong) auto
    then show ?thesis using skip p pass_skipped[OF lk skip(1)] IH[OF Cons.prems(1,2) sub] by simp
  next
    case del
    define f' where "f' = f\<lparr>entries := filter (\<lambda>q. fst q \<noteq> nm) (entries f)\<rparr>"
    have d': "dir_exists f'" "distinct (map fst (entries f'))"
      using Cons.prems(1,2) by (simp_all add: f'_def distinct_map_filter)
    have sub': "set ps \<subseteq> set (entries f')"
      using sub nin by (auto simp: f'_def)
    have uniq: "\<And>q. q \<in> set (entries f) \<Longrightarrow> fst q = nm \<Longrightarrow> q = p"
    proof -
      fix q assume q: "q \<in> set (entries f)" "fst q = nm"
      have "(nm, snd q) \<in> set (entries f)" "(nm, n) \<in> set (entries f)"
        using q Cons.prems(3) p by auto
      then have "snd q = n" using Cons.prems(2) by (rule eq_key_imp_eq_value[rotated])
      then show "q = p" using q p by (cases q) simp
    qed
    have fl: "filter (\<lambda>q. \<not> (q \<in> set ps \<and> deletable (snd q))) (entries f')
        = filter (\<lambda>q. \<not> (q \<in> set (p # ps) \<and> deletable (snd q))) (entries f)"
    proof -
      have pw: "(fst q \<noteq> nm \<and> \<not> (q \<in> set ps \<and> deletable (snd q)))
              = (\<not> (q \<in> set (p # ps) \<and> deletable (snd q)))"
        if "q \<in> set (entries f)" for q
      proof (cases "fst q = nm")
        case True
        then have "q = p" using uniq that by blast
        then show ?thesis using del p by simp
      next
        case False
        then have "q \<noteq> p" using p by auto
        then show ?thesis using False by simp
      qed
      have "filter (\<lambda>q. \<not> (q \<in> set ps \<and> deletable (snd q))) (entries f')
          = filter (\<lambda>q. fst q \<noteq> nm \<and> \<not> (q \<in> set ps \<and> deletable (snd q))) (entries f)"
        by (simp add: f'_def)
      also have "\<dots> = filter (\<lambda>q. \<not> (q \<in> set (p # ps) \<and> deletable (snd q))) (entries f)"
        by (rule filter_cong[OF refl]) (rule pw)
      finally show ?thesis .
    qed
    have "f'\<lparr>entries := filter (\<lambda>q. \<not> (q \<in> set ps \<and> deletable (snd q))) (entries f')\<rparr>
        = f\<lparr>entries := filter (\<lambda>q. \<not> (q \<in> set (p # ps) \<and> deletable (snd q))) (entries f)\<rparr>"
      unfolding fl by (simp add: f'_def)
    then show ?thesis
      using del p pass_deleted[OF lk del(1), folded f'_def] IH[OF d' sub'] by simp
  next
    case (fail err)
    have "filter (\<lambda>q. \<not> (q \<in> set (p # ps) \<and> deletable (snd q))) (entries f)
        = filter (\<lambda>q. \<not> (q \<in> set ps \<and> deletable (snd q))) (entries f)"
      using fail p by (intro filter_cong) auto
    then show ?thesis using fail p pass_failed[OF lk fail(1)] IH[OF Cons.prems(1,2) sub] by simp
  qed
qed

lemma clear_cache_summary:
  assumes "dir_exists f" "readdir_throws f = None" "distinct (map fst (entries f))"
  shows "clear_cache_handler f =
    (clear_cache_reply (length (filter (\<lambda>p. clear_filter (fst p) \<and> deletable (snd p)) (entries f)))
        (failures (filter (\<lambda>p. clear_filter (fst p)) (entries f))),
     f\<lparr>entries := filter (\<lambda>p. \<not> (clear_filter (fst p) \<and> deletable (snd p))) (entries f)\<rparr>)"
proof -
  let ?ps = "filter (\<lambda>p. clear_filter (fst p)) (entries f)"
  have names: "filter clear_filter (map fst (entries f)) = map fst ?ps"
    by (simp add: filter_map comp_def)
  have "distinct (map fst ?ps)" using assms(3) by (simp add: distinct_map_filter)
  then have "delete_loop (map fst ?ps) f 0 [] =
    (0 + length (filter (\<lambda>p. deletable (snd p)) ?ps), [] @ failures ?ps,
     f\<lparr>entries := filter (\<lambda>p. \<not> (p \<in> set ?ps \<and> deletable (snd p))) (entries f)\<rparr>)"
    using assms by (intro loop_char) auto
  moreover have "filter (\<lambda>p. \<not> (p \<in> set ?ps \<and> deletable (snd p))) (entries f)
      = filter (\<lambda>p. \<not> (clear_filter (fst p) \<and> deletable (snd p))) (entries f)"
    by (intro filter_cong) auto
  moreover have "filter (\<lambda>p. deletable (snd p)) ?ps
      = filter (\<lambda>p. clear_filter (fst p) \<and> deletable (snd p)) (entries f)"
    by (simp add: conj_commute)
  ultimately show ?thesis
    using assms(1,2)
    by (simp add: clear_cache_handler_def existsSync_uploadsDir_def readdirSync_def names)
qed

lemma result_of_reply: "clear_cache_result (clear_cache_reply n errs) = Some (n, errs)"
  by (simp add: clear_cache_result_def clear_cache_reply_def)

lemma length_failures: "length (failures ps) = length (filter (\<lambda>p. failure (snd p) \<noteq> None) ps)"
  by (induction ps rule: failures.induct) (auto split: option.splits)

lemma failures_not_skipped: "failures (filter (\<lambda>p. \<not> skipped (snd p)) ps) = failures ps"
proof (induction ps rule: failures.induct)
  case 1
  then show ?case by simp
next
  case (2 nm n ps)
  then show ?case by (cases n rule: node_cases) auto
qed

lemma failures_filter: "failures (filter (\<lambda>p. P (fst p) \<and> \<not> skipped (snd p)) ps) = failures (filter (\<lambda>p. P (fst p)) ps)"
proof -
  have "filter (\<lambda>p. P (fst p) \<and> \<not> skipped (snd p)) ps
      = filter (\<lambda>p. \<not> skipped (snd p)) (filter (\<lambda>p. P (fst p)) ps)"
    by (simp add: conj_commute)
  then show ?thesis by (simp only: failures_not_skipped)
qed

lemma failure_in_failures:
  "(file, n) \<in> set ps \<Longrightarrow> failure n = Some err \<Longrightarrow> error_entry file err \<in> set (failures ps)"
  by (induction ps rule: failures.induct) (auto split: option.splits)

lemma outcome_count:
  "length (filter (\<lambda>p. deletable (snd p)) ps) + length (filter (\<lambda>p. failure (snd p) \<noteq> None) ps)
     = length (filter (\<lambda>p. \<not> skipped (snd p)) ps)"
proof (induction ps)
  case Nil
  then show ?case by simp
next
  case (Cons p ps)
  then show ?case by (cases "snd p" rule: node_cases) auto
qed

lemma deletable_attempted:
  "filter (\<lambda>p. clear_filter (fst p) \<and> deletable (snd p)) (entries f)
     = filter (\<lambda>p. deletable (snd p)) (attempted f)"
proof -
  have "\<And>n. deletable n \<Longrightarrow> \<not> skipped n" by (auto simp: deletable_def skipped_def)
  then show ?thesis unfolding attempted_def filter_filter by (intro filter_cong) auto
qed

lemma failures_attempted:
  "failures (filter (\<lambda>p. clear_filter (fst p)) (entries f)) = failures (attempted f)"
  by (simp add: attempted_def failures_filter)

lemma uploads_simps [simp]:
  "dir_exists (uploads es)" "readdir_throws (uploads es) = None" "entries (uploads es) = es"
  "other_paths (uploads es) = []" "dangling (uploads es) = []"
  by (simp_all add: uploads_def)

lemma entry_unique:
  "distinct (map fst es) \<Longrightarrow> (nm, n) \<in> set es \<Longrightarrow> p \<in> set es \<Longrightarrow> fst p = nm \<Longrightarrow> p = (nm, n)"
  by (cases p) (auto dest: eq_key_imp_eq_value)

lemma unreadable_sub_run:
  "clear_cache_handler unreadable_sub
     = (clear_cache_reply 0 [JString ''sub: EACCES: permission denied, stat''], unreadable_sub)"
  by (simp add: unreadable_sub_def clear_cache_handler_def existsSync_uploadsDir_def readdirSync_def
       clear_filter_def startsWith_def statSync_def lookup_def directory_def error_entry_def)

lemma xyz_run:
  "clear_cache_handler xyz_dir =
     (clear_cache_reply 2 [JString ''y: EPERM: operation not permitted, unlink''],
      uploads [(''y'', (plain_file 1 0)\<lparr>unlink_throws := Some (Error ''EPERM: operation not permitted, unlink'')\<rparr>)])"
  by (simp add: xyz_dir_def clear_cache_handler_def existsSync_uploadsDir_def readdirSync_def
       clear_filter_def startsWith_def statSync_def unlinkSync_def lookup_def plain_file_def
       error_entry_def uploads_def numeral_2_eq_2)

lemma describe_each_ok:
  assumes "dir_exists f" "distinct (map fst (entries f))" "set ps \<subseteq> set (entries f)"
    and "\<forall>p \<in> set ps. stat_throws (snd p) = None"
  shows "describe_each f (map fst ps) = Inr (map descriptor_of ps)"
  using assms(3,4)
proof (induction ps)
  case Nil
  then show ?case by simp
next
  case (Cons p ps)
  obtain nm n where p: "p = (nm, n)" by (cases p)
  have "lookup f nm = Some n" using Cons.prems(1) p assms(1,2) by (auto intro: lookup_in)
  then have "statSync f nm = Inr (node_stats n)"
    using Cons.prems(2) p by (simp add: statSync_def)
  then show ?case using Cons p by (simp add: descriptor_of_def)
qed

lemma describe_each_fail:
  assumes "dir_exists f" "distinct (map fst (entries f))" "set ps \<subseteq> set (entries f)"
    and "(nm, n) \<in> set ps" "stat_throws n \<noteq> None"
  shows "\<exists>e. describe_each f (map fst ps) = Inl e"
  using assms(3,4)
proof (induction ps)
  case Nil
  then show ?case by simp
next
  case (Cons p ps)
  obtain nm' n' where p: "p = (nm', n')" by (cases p)
  have lk: "lookup f nm' = Some n'" using Cons.prems(1) p assms(1,2) by (auto intro: lookup_in)
  show ?case
  proof (cases "p = (nm, n)")
    case True
    then show ?thesis using lk p assms(5) by (auto simp: statSync_def)
  next
    case False
    then have "\<exists>e. describe_each f (map fst ps) = Inl e" using Cons by auto
    then show ?thesis using p by (auto split: sum.splits)
  qed
qed

lemma listed_names:
  "filter (\<lambda>file. \<not> startsWith file ''.'') (map fst (entries f)) = map fst (listed f)"
  by (simp add: listed_def filter_map comp_def)

section \<open>The clear-cache route\<close>

text \<open>
  Claim C1, as amended. When the entries the loop attempts are \<open>x\<close>, \<open>y\<close> and \<open>z\<close> in
  this order, deleting \<open>y\<close> fails and deleting \<open>x\<close> and \<open>z\<close> succeeds, the handler goes on
  past the failure: it answers 207 with \<open>deletedCount = 2\<close> and one entry in \<open>errors\<close>,
  the string made of the name of \<open>y\<close>, a colon and the message; \<open>x\<close> and \<open>z\<close> are gone
  from the directory and every other entry is still there.
\<close>

theorem clear_cache_partial_tolerance:
  assumes "dir_exists f" "readdir_throws f = None" "distinct (map fst (entries f))"
    and "attempted f = [(x, nx), (y, ny), (z, nz)]"
    and "deletable nx" "failure ny = Some err" "deletable nz"
  shows "clear_cache_handler f =
      (Json 207 (JObject
         [(''message'', JString ''Cache partially cleared. 2 files deleted, 1 errors.''),
          (''deletedCount'', JNumber 2),
          (''errors'', JArray [JString (y @ '': '' @ errorMessage err)])]),
       f\<lparr>entries := filter (\<lambda>p. fst p \<noteq> x \<and> fst p \<noteq> z) (entries f)\<rparr>)
    \<and> clear_cache_result (fst (clear_cache_handler f))
        = Some (2, [JString (y @ '': '' @ errorMessage err)])"
proof -
  have ny: "\<not> deletable ny" using assms(6) by (cases ny rule: node_cases) auto
  have cnt: "length (filter (\<lambda>p. clear_filter (fst p) \<and> deletable (snd p)) (entries f)) = 2"
    using assms(4,5,7) ny by (simp add: deletable_attempted)
  have errs: "failures (filter (\<lambda>p. clear_filter (fst p)) (entries f))
      = [JString (y @ '': '' @ errorMessage err)]"
  proof -
    have "failure nx = None" "failure nz = None"
      using assms(5,7) by (auto simp: deletable_def failure_def)
    then show ?thesis using assms(4,6) by (simp add: failures_attempted error_entry_def)
  qed
  have mem: "set (attempted f) = {(x, nx), (y, ny), (z, nz)}" using assms(4) by simp
  have "(x, nx) \<in> set (attempted f)" "(z, nz) \<in> set (attempted f)"
    using assms(4) by simp_all
  then have inx: "(x, nx) \<in> set (entries f)" "(z, nz) \<in> set (entries f)"
    and cf: "clear_filter x" "clear_filter z"
    by (simp_all add: attempted_def)
  have st: "filter (\<lambda>p. \<not> (clear_filter (fst p) \<and> deletable (snd p))) (entries f)
      = filter (\<lambda>p. fst p \<noteq> x \<and> fst p \<noteq> z) (entries f)"
  proof (rule filter_cong[OF refl])
    fix p assume p: "p \<in> set (entries f)"
    show "(\<not> (clear_filter (fst p) \<and> deletable (snd p))) = (fst p \<noteq> x \<and> fst p \<noteq> z)"
    proof (cases "fst p = x \<or> fst p = z")
      case True
      then have "p = (x, nx) \<or> p = (z, nz)"
        using entry_unique[OF assms(3) inx(1) p] entry_unique[OF assms(3) inx(2) p] by blast
      then show ?thesis using True cf assms(5,7) by auto
    next
      case False
      have "\<not> (clear_filter (fst p) \<and> deletable (snd p))"
      proof
        assume a: "clear_filter (fst p) \<and> deletable (snd p)"
        then have "\<not> skipped (snd p)" by (auto simp: deletable_def skipped_def)
        then have "p \<in> set (attempted f)" using a p by (simp add: attempted_def)
        then show False using mem False a ny by auto
      qed
      then show ?thesis using False by simp
    qed
  qed
  have run: "clear_cache_handler f =
      (clear_cache_reply 2 [JString (y @ '': '' @ errorMessage err)],
       f\<lparr>entries := filter (\<lambda>p. fst p \<noteq> x \<and> fst p \<noteq> z) (entries f)\<rparr>)"
    unfolding clear_cache_summary[OF assms(1-3)] cnt errs st by (rule refl)
  have rep: "clear_cache_reply 2 [JString (y @ '': '' @ errorMessage err)] =
      Json 207 (JObject
         [(''message'', JString ''Cache partially cleared. 2 files deleted, 1 errors.''),
          (''deletedCount'', JNumber 2),
          (''errors'', JArray [JString (y @ '': '' @ errorMessage err)])])"
    by (simp add: clear_cache_reply_def show_nat_small show_nat_digit digit_def)
  show ?thesis unfolding run fst_conv result_of_reply using rep by simp
qed

theorem clear_cache_partial_tolerance_witness:
  "clear_cache_handler xyz_dir =
      (Json 207 (JObject
         [(''message'', JString ''Cache partially cleared. 2 files deleted, 1 errors.''),
          (''deletedCount'', JNumber 2),
          (''errors'', JArray [JString ''y: EPERM: operation not permitted, unlink''])]),
       xyz_dir\<lparr>entries := filter (\<lambda>p. fst p \<noteq> ''x'' \<and> fst p \<noteq> ''z'') (entries xyz_dir)\<rparr>)
    \<and> clear_cache_result (fst (clear_cache_handler xyz_dir))
        = Some (2, [JString ''y: EPERM: operation not permitted, unlink''])"
proof -
  let ?ny = "(plain_file 1 0)\<lparr>unlink_throws := Some (Error ''EPERM: operation not permitted, unlink'')\<rparr>"
  have h: "dir_exists xyz_dir" "readdir_throws xyz_dir = None" "distinct (map fst (entries xyz_dir))"
    "attempted xyz_dir = [(''x'', plain_file 1 0), (''y'', ?ny), (''z'', plain_file 1 0)]"
    "deletable (plain_file 1 0)"
    "failure ?ny = Some (Error ''EPERM: operation not permitted, unlink'')"
    by (simp_all add: xyz_dir_def attempted_def clear_filter_def startsWith_def skipped_def
          deletable_def failure_def plain_file_def)
  show ?thesis using clear_cache_partial_tolerance[OF h(1-6) h(5)] by (simp add: clear_cache_result_def)
qed

text \<open>
  Claim C1 as the specification words it asks for an entry of \<open>errors\<close> that is a record
  with the fields \<open>itemName\<close> and \<open>message\<close>. On the directory \<open>xyz_dir\<close> the entry is a
  string.
\<close>

theorem clear_cache_partial_tolerance_counterexample:
  "clear_cache_result (fst (clear_cache_handler xyz_dir))
     = Some (2, [JString ''y: EPERM: operation not permitted, unlink''])
   \<and> \<not> item_record ''y'' (JString ''y: EPERM: operation not permitted, unlink'')"
  by (simp add: xyz_run result_of_reply item_record_def)

text \<open>
  Claim C2, as amended. Whenever the handler reaches the loop (the directory exists and is
  read), the reply carries a result with
  \<open>deletedCount + length errors = length (attempted f)\<close>: the entries attempted are those of
  the listing that are not hidden, not \<open>test\<close>, and not reported as a directory by a
  \<open>statSync\<close> that answers.
\<close>

theorem clear_cache_aggregation:
  assumes "dir_exists f" "readdir_throws f = None" "distinct (map fst (entries f))"
  shows "\<exists>deletedCount errors.
     clear_cache_result (fst (clear_cache_handler f)) = Some (deletedCount, errors)
     \<and> deletedCount + length errors = length (attempted f)"
proof -
  let ?d = "length (filter (\<lambda>p. deletable (snd p)) (attempted f))"
  let ?e = "failures (attempted f)"
  have "clear_cache_result (fst (clear_cache_handler f)) = Some (?d, ?e)"
    by (simp add: clear_cache_summary[OF assms] result_of_reply deletable_attempted failures_attempted)
  moreover have "?d + length ?e = length (attempted f)"
  proof -
    have "filter (\<lambda>p. \<not> skipped (snd p)) (attempted f) = attempted f"
      by (simp add: attempted_def)
    then show ?thesis using outcome_count[of "attempted f"] by (simp add: length_failures)
  qed
  ultimately show ?thesis by blast
qed

theorem clear_cache_aggregation_witness:
  "dir_exists unreadable_sub \<and> readdir_throws unreadable_sub = None
   \<and> distinct (map fst (entries unreadable_sub))
   \<and> (\<exists>deletedCount errors.
        clear_cache_result (fst (clear_cache_handler unreadable_sub)) = Some (deletedCount, errors)
        \<and> deletedCount + length errors = length (attempted unreadable_sub))"
proof -
  have h: "dir_exists unreadable_sub" "readdir_throws unreadable_sub = None"
    "distinct (map fst (entries unreadable_sub))"
    by (simp_all add: unreadable_sub_def)
  show ?thesis using h clear_cache_aggregation[OF h] by blast
qed

text \<open>
  Claim C2 as the specification words it counts every subdirectory out of the eligible
  items. A subdirectory on which \<open>statSync\<close> raises is counted among the errors, so the sum
  is larger than the number of eligible items.
\<close>

theorem clear_cache_aggregation_counterexample:
  "clear_cache_result (fst (clear_cache_handler unreadable_sub))
     = Some (0, [JString ''sub: EACCES: permission denied, stat''])
   \<and> eligible unreadable_sub = []
   \<and> 0 + length [JString ''sub: EACCES: permission denied, stat''] \<noteq> length (eligible unreadable_sub)"
proof -
  have "eligible unreadable_sub = []"
    by (simp add: eligible_def unreadable_sub_def directory_def)
  then show ?thesis by (simp add: unreadable_sub_run result_of_reply)
qed

text \<open>
  Claim C4. When the upload directory does not exist the handler answers 200 with the
  message \<open>No cache to clear\<close>, which stands for nothing deleted and no error; the file
  system is left as it was, and a second call answers the same.
\<close>

theorem clear_cache_missing_root: 
  "\<not> dir_exists f \<Longrightarrow>
     clear_cache_handler f = (Json 200 (JObject [(''message'', JString ''No cache to clear'')]), f)
   \<and> clear_cache_result (fst (clear_cache_handler f)) = Some (0, [])
   \<and> clear_cache_handler (snd (clear_cache_handler f)) = clear_cache_handler f"
  by (simp add: clear_cache_handler_def existsSync_uploadsDir_def clear_cache_result_def)

theorem clear_cache_missing_root_witness:
  "\<not> dir_exists no_uploads
   \<and> clear_cache_handler no_uploads = (Json 200 (JObject [(''message'', JString ''No cache to clear'')]), no_uploads)
   \<and> clear_cache_result (fst (clear_cache_handler no_uploads)) = Some (0, [])
   \<and> clear_cache_handler (snd (clear_cache_handler no_uploads)) = clear_cache_handler no_uploads"
proof -
  have h: "\<not> dir_exists no_uploads" by (simp add: no_uploads_def)
  show ?thesis using h clear_cache_missing_root[OF h] by blast
qed

text \<open>
  Claim C8. When the directory exists and reading it raises, the handler answers 500 with
  one error message and no result, and deletes nothing. When reading it succeeds the reply
  always carries a result, whatever happens to the single entries.
\<close>

theorem clear_cache_listing_failure:
  "dir_exists f \<Longrightarrow>
     (readdir_throws f = Some err \<longrightarrow>
        clear_cache_handler f =
          (Json 500 (JObject [(''error'', JString (''Failed to clear cache: '' @ errorMessage err))]), f)
        \<and> clear_cache_result (fst (clear_cache_handler f)) = None)
   \<and> (readdir_throws f = None \<longrightarrow> clear_cache_result (fst (clear_cache_handler f)) \<noteq> None)"
proof -
  assume d: "dir_exists f"
  have a: "clear_cache_handler f =
          (Json 500 (JObject [(''error'', JString (''Failed to clear cache: '' @ errorMessage err))]), f)
        \<and> clear_cache_result (fst (clear_cache_handler f)) = None"
    if "readdir_throws f = Some err"
    using d that
    by (simp add: clear_cache_handler_def existsSync_uploadsDir_def readdirSync_def
          clear_cache_result_def)
  have b: "clear_cache_result (fst (clear_cache_handler f)) \<noteq> None" if "readdir_throws f = None"
  proof -
    obtain n errs f' where "delete_loop (filter clear_filter (map fst (entries f))) f 0 [] = (n, errs, f')"
      by (metis prod_cases3)
    then have "clear_cache_handler f = (clear_cache_reply n errs, f')"
      using d that
      by (simp add: clear_cache_handler_def existsSync_uploadsDir_def readdirSync_def)
    then show ?thesis by (simp add: result_of_reply)
  qed
  show ?thesis using a b by blast
qed

theorem clear_cache_listing_failure_witness:
  "clear_cache_handler unlistable =
     (Json 500 (JObject
        [(''error'', JString ''Failed to clear cache: EACCES: permission denied, scandir'')]),
      unlistable)
   \<and> clear_cache_result (fst (clear_cache_handler unlistable)) = None
   \<and> clear_cache_result (fst (clear_cache_handler xyz_dir)) \<noteq> None"
proof -
  have h: "dir_exists unlistable"
    "readdir_throws unlistable = Some (Error ''EACCES: permission denied, scandir'')"
    "dir_exists xyz_dir" "readdir_throws xyz_dir = None"
    by (simp_all add: unlistable_def xyz_dir_def)
  show ?thesis
    using clear_cache_listing_failure[OF h(1), of "Error ''EACCES: permission denied, scandir''"]
      clear_cache_listing_failure[OF h(3)] h(2,4)
    by (simp add: clear_cache_result_def)
qed

text \<open>
  Claim C5. A directory that holds exactly \<open>a.txt\<close> (a file of 10 bytes), \<open>.git\<close>,
  \<open>test\<close> and the subdirectory \<open>sub\<close>, in any order: the handler answers 200 with
  \<open>deletedCount = 1\<close> and no errors, and only \<open>a.txt\<close> is gone. \<open>.git\<close> and \<open>test\<close> are
  never touched, whatever they are; \<open>sub\<close> is skipped as a directory.
\<close>

theorem clear_cache_scenario:
  assumes "dir_exists f" "readdir_throws f = None"
    and "mset (entries f) = mset [(''a.txt'', plain_file 10 ta), (''.git'', g), (''test'', t), (''sub'', directory ts)]"
  shows "clear_cache_handler f =
      (Json 200 (JObject [(''message'', JString ''Cache cleared successfully''), (''deletedCount'', JNumber 1)]),
       f\<lparr>entries := filter (\<lambda>p. fst p \<noteq> ''a.txt'') (entries f)\<rparr>)
    \<and> clear_cache_result (fst (clear_cache_handler f)) = Some (1, [])"
proof -
  let ?es = "[(''a.txt'', plain_file 10 ta), (''.git'', g), (''test'', t), (''sub'', directory ts)]"
  have "mset (map fst (entries f)) = mset (map fst ?es)"
    using assms(3) by (metis mset_map)
  then have dist: "distinct (map fst (entries f))"
    using mset_eq_imp_distinct_iff[of "map fst (entries f)" "map fst ?es"] by simp
  have mem: "set (entries f) = set ?es" using assms(3) by (rule mset_eq_setD)
  have sel: "(clear_filter (fst p) \<and> deletable (snd p)) = (fst p = ''a.txt'')" if "p \<in> set (entries f)" for p
    using that unfolding mem
    by (auto simp: clear_filter_def startsWith_def deletable_def plain_file_def directory_def)
  have f1: "filter (\<lambda>p. clear_filter (fst p) \<and> deletable (snd p)) (entries f)
      = filter (\<lambda>p. fst p = ''a.txt'') (entries f)"
    by (rule filter_cong[OF refl]) (rule sel)
  have "length (filter (\<lambda>p. fst p = ''a.txt'') (entries f))
      = size (filter_mset (\<lambda>p. fst p = ''a.txt'') (mset (entries f)))"
    by (metis mset_filter size_mset)
  also have "\<dots> = 1" unfolding assms(3) by simp
  finally have cnt: "length (filter (\<lambda>p. clear_filter (fst p) \<and> deletable (snd p)) (entries f)) = 1"
    using f1 by simp
  have nofail: "failure (snd p) = None" if "p \<in> set (entries f)" "clear_filter (fst p)" for p
    using that unfolding mem
    by (auto simp: clear_filter_def startsWith_def failure_def plain_file_def directory_def)
  have errs: "failures (filter (\<lambda>p. clear_filter (fst p)) (entries f)) = []"
  proof -
    have "length (failures (filter (\<lambda>p. clear_filter (fst p)) (entries f))) = 0"
      unfolding length_failures using nofail by (simp add: filter_empty_conv)
    then show ?thesis by simp
  qed
  have f2: "filter (\<lambda>p. \<not> (clear_filter (fst p) \<and> deletable (snd p))) (entries f)
      = filter (\<lambda>p. fst p \<noteq> ''a.txt'') (entries f)"
    by (rule filter_cong[OF refl]) (simp add: sel)
  have run: "clear_cache_handler f =
      (clear_cache_reply 1 [], f\<lparr>entries := filter (\<lambda>p. fst p \<noteq> ''a.txt'') (entries f)\<rparr>)"
    unfolding clear_cache_summary[OF assms(1,2) dist] cnt errs f2 by (rule refl)
  show ?thesis unfolding run fst_conv result_of_reply by (simp add: clear_cache_reply_def)
qed

theorem clear_cache_scenario_witness:
  "clear_cache_handler scenario_dir =
      (Json 200 (JObject [(''message'', JString ''Cache cleared successfully''), (''deletedCount'', JNumber 1)]),
       uploads [(''.git'', directory 0), (''test'', directory 0), (''sub'', directory 0)])
    \<and> clear_cache_result (fst (clear_cache_handler scenario_dir)) = Some (1, [])"
proof -
  have h: "dir_exists scenario_dir" "readdir_throws scenario_dir = None"
    "mset (entries scenario_dir) = mset [(''a.txt'', plain_file 10 0), (''.git'', directory 0), (''test'', directory 0), (''sub'', directory 0)]"
    by (simp_all add: scenario_dir_def)
  show ?thesis using clear_cache_scenario[OF h] by (simp add: scenario_dir_def uploads_def clear_cache_result_def)
qed

text \<open>
  Claim C10. When \<open>statSync\<close> raises on an entry that passes the name filter, the entry
  is reported in \<open>errors\<close> and stays in the directory, whether or not it is a directory,
  and the loop goes on: every entry that can be deleted is still deleted and counted.
\<close>

theorem clear_cache_stat_failure:
  assumes "dir_exists f" "readdir_throws f = None" "distinct (map fst (entries f))"
    and "(nm, n) \<in> set (entries f)" "clear_filter nm" "stat_throws n = Some err"
  shows "\<exists>errors.
      clear_cache_result (fst (clear_cache_handler f))
        = Some (length (filter (\<lambda>p. clear_filter (fst p) \<and> deletable (snd p)) (entries f)), errors)
    \<and> error_entry nm err \<in> set errors
    \<and> (nm, n) \<in> set (entries (snd (clear_cache_handler f)))"
proof -
  have fl: "failure n = Some err" using assms(6) by (simp add: failure_def)
  have nd: "\<not> deletable n" using assms(6) by (simp add: deletable_def)
  have "(nm, n) \<in> set (filter (\<lambda>p. clear_filter (fst p)) (entries f))"
    using assms(4,5) by simp
  then have "error_entry nm err \<in> set (failures (filter (\<lambda>p. clear_filter (fst p)) (entries f)))"
    using fl by (rule failure_in_failures)
  then show ?thesis
    unfolding clear_cache_summary[OF assms(1-3)] using assms(4) nd
    by (simp add: result_of_reply)
qed

theorem clear_cache_stat_failure_witness:
  "clear_cache_result (fst (clear_cache_handler unreadable_sub_then_file))
     = Some (1, [JString ''sub: EACCES: permission denied, stat''])
   \<and> map fst (entries (snd (clear_cache_handler unreadable_sub_then_file))) = [''sub'']"
proof -
  let ?n = "(directory 0)\<lparr>stat_throws := Some (Error ''EACCES: permission denied, stat'')\<rparr>"
  have h: "dir_exists unreadable_sub_then_file" "readdir_throws unreadable_sub_then_file = None"
    "distinct (map fst (entries unreadable_sub_then_file))"
    "(''sub'', ?n) \<in> set (entries unreadable_sub_then_file)" "clear_filter ''sub''"
    "stat_throws ?n = Some (Error ''EACCES: permission denied, stat'')"
    by (simp_all add: unreadable_sub_then_file_def clear_filter_def startsWith_def)
  have run: "clear_cache_handler unreadable_sub_then_file =
      (clear_cache_reply 1 [JString ''sub: EACCES: permission denied, stat''],
       uploads [(''sub'', ?n)])"
    by (simp add: unreadable_sub_then_file_def clear_cache_handler_def existsSync_uploadsDir_def
         readdirSync_def clear_filter_def startsWith_def statSync_def unlinkSync_def lookup_def
         plain_file_def directory_def error_entry_def uploads_def)
  show ?thesis using clear_cache_stat_failure[OF h] by (simp add: run result_of_reply)
qed

section \<open>The list route\<close>

text \<open>
  Claim C6. When the directory is read and \<open>statSync\<close> answers on every entry whose name
  does not start with a dot, the handler answers 200 with the descriptors of exactly these
  entries, in the order of the listing, each with the name, the size and the creation time
  of its entry. Hidden entries are left out before \<open>statSync\<close> is called on them.
\<close>

theorem list_excludes_hidden:
  assumes "dir_exists f" "readdir_throws f = None" "distinct (map fst (entries f))"
    and "\<forall>p \<in> set (entries f). \<not> startsWith (fst p) ''.'' \<longrightarrow> stat_throws (snd p) = None"
  shows "list_handler f =
     Json 200 (JArray (map (\<lambda>p. file_descriptor (fst p) (node_stats (snd p)))
                           (filter (\<lambda>p. \<not> startsWith (fst p) ''.'') (entries f))))"
proof -
  have "describe_each f (map fst (listed f)) = Inr (map descriptor_of (listed f))"
    using assms by (intro describe_each_ok) (auto simp: listed_def)
  then show ?thesis
    using assms(1,2) by (simp add: list_handler_def readdirSync_def listed_names)
       (simp add: listed_def descriptor_of_def[abs_def])
qed

theorem list_excludes_hidden_witness:
  "list_handler abc_dir =
     Json 200 (JArray
       [JObject [(''filename'', JString ''a.txt''), (''size'', JNumber 10), (''createdAt'', JDate 100)],
        JObject [(''filename'', JString ''b.txt''), (''size'', JNumber 20), (''createdAt'', JDate 300)]])"
proof -
  have h: "dir_exists abc_dir" "readdir_throws abc_dir = None" "distinct (map fst (entries abc_dir))"
    "\<forall>p \<in> set (entries abc_dir). \<not> startsWith (fst p) ''.'' \<longrightarrow> stat_throws (snd p) = None"
    by (simp_all add: abc_dir_def startsWith_def plain_file_def)
  show ?thesis using list_excludes_hidden[OF h]
    by (simp add: abc_dir_def startsWith_def plain_file_def file_descriptor_def)
qed

text \<open>
  Claim C9. The list handler has no test for directories and none for the name \<open>test\<close>:
  every entry whose name does not start with a dot is passed to \<open>statSync\<close>, so a failure
  on it fails the whole listing with the 500 reply, and when the listing succeeds the entry
  is in the output as the object with its \<open>filename\<close>, \<open>size\<close> and \<open>createdAt\<close>, directory
  or not.
\<close>

theorem list_includes_directories:
  assumes "dir_exists f" "readdir_throws f = None" "distinct (map fst (entries f))"
    and "(nm, n) \<in> set (entries f)" "\<not> startsWith nm ''.''"
  shows "(stat_throws n \<noteq> None \<longrightarrow>
            list_handler f = Json 500 (JObject [(''error'', JString ''Failed to list files'')]))
    \<and> ((\<forall>p \<in> set (entries f). \<not> startsWith (fst p) ''.'' \<longrightarrow> stat_throws (snd p) = None) \<longrightarrow>
         (\<exists>files. list_handler f = Json 200 (JArray files)
            \<and> JObject [(''filename'', JString nm),
                        (''size'', JNumber (stats_size (node_stats n))),
                        (''createdAt'', JDate (birthtime (node_stats n)))] \<in> set files))"
proof (intro conjI impI)
  assume "stat_throws n \<noteq> None"
  moreover have "(nm, n) \<in> set (listed f)" using assms(4,5) by (simp add: listed_def)
  ultimately have "\<exists>e. describe_each f (map fst (listed f)) = Inl e"
    using assms(1,3) by (intro describe_each_fail[where nm = nm and n = n]) (auto simp: listed_def)
  then show "list_handler f = Json 500 (JObject [(''error'', JString ''Failed to list files'')])"
    using assms(1,2) by (auto simp: list_handler_def list_failed_def readdirSync_def listed_names)
next
  assume ok: "\<forall>p \<in> set (entries f). \<not> startsWith (fst p) ''.'' \<longrightarrow> stat_throws (snd p) = None"
  have "describe_each f (map fst (listed f)) = Inr (map descriptor_of (listed f))"
    using assms(1,3) ok by (intro describe_each_ok) (auto simp: listed_def)
  then have "list_handler f = Json 200 (JArray (map descriptor_of (listed f)))"
    using assms(1,2) by (simp add: list_handler_def readdirSync_def listed_names)
  moreover have "file_descriptor nm (node_stats n) \<in> set (map descriptor_of (listed f))"
    using assms(4,5) by (force simp: listed_def descriptor_of_def)
  ultimately show "\<exists>files. list_handler f = Json 200 (JArray files)
      \<and> JObject [(''filename'', JString nm),
                  (''size'', JNumber (stats_size (node_stats n))),
                  (''createdAt'', JDate (birthtime (node_stats n)))] \<in> set files"
    unfolding file_descriptor_def by blast
qed

theorem list_includes_directories_witness:
  "list_handler unreadable_sub_then_file = Json 500 (JObject [(''error'', JString ''Failed to list files'')])
   \<and> (\<exists>files. list_handler mixed_dir = Json 200 (JArray files)
        \<and> JObject [(''filename'', JString ''sub''), (''size'', JNumber 4096), (''createdAt'', JDate 7)]
             \<in> set files)
   \<and> (\<exists>files. list_handler mixed_dir = Json 200 (JArray files)
        \<and> JObject [(''filename'', JString ''test''), (''size'', JNumber 4096), (''createdAt'', JDate 8)]
             \<in> set files)"
proof -
  let ?n = "(directory 0)\<lparr>stat_throws := Some (Error ''EACCES: permission denied, stat'')\<rparr>"
  have h1: "dir_exists unreadable_sub_then_file" "readdir_throws unreadable_sub_then_file = None"
    "distinct (map fst (entries unreadable_sub_then_file))"
    "(''sub'', ?n) \<in> set (entries unreadable_sub_then_file)" "\<not> startsWith ''sub'' ''.''"
    by (simp_all add: unreadable_sub_then_file_def startsWith_def)
  have h2: "dir_exists mixed_dir" "readdir_throws mixed_dir = None"
    "distinct (map fst (entries mixed_dir))"
    "(''sub'', directory 7) \<in> set (entries mixed_dir)" "\<not> startsWith ''sub'' ''.''"
    "(''test'', directory 8) \<in> set (entries mixed_dir)" "\<not> startsWith ''test'' ''.''"
    by (simp_all add: mixed_dir_def startsWith_def)
  have ok: "\<forall>p \<in> set (entries mixed_dir). \<not> startsWith (fst p) ''.'' \<longrightarrow> stat_throws (snd p) = None"
    by (simp add: mixed_dir_def plain_file_def directory_def)
  have t: "stat_throws ?n \<noteq> None" by simp
  have s: "stats_size (node_stats (directory 7)) = 4096" "birthtime (node_stats (directory 7)) = 7"
    "stats_size (node_stats (directory 8)) = 4096" "birthtime (node_stats (directory 8)) = 8"
    by (simp_all add: directory_def)
  show ?thesis
    using list_includes_directories[OF h1] list_includes_directories[OF h2(1-5)]
      list_includes_directories[OF h2(1-3) h2(6,7)] ok t
    unfolding s by blast
qed

section \<open>The download route\<close>

text \<open>
  Claim C7. The handler tests \<^verbatim>\<open>fs.existsSync(path.join(uploadsDir, filename))\<close>, and a
  name that is no item of the upload directory can pass that test: with
  \<^verbatim>\<open>../server.js\<close> and an empty directory the script of the server is sent instead of the
  404 reply, while \<^verbatim>\<open>missing.txt\<close> gets the 404 reply. And when the transfer of an
  existing file fails, the failure reaches the framework after the handler has returned:
  the reply is not the 500 of the \<^verbatim>\<open>catch\<close> clause.
\<close>

theorem download_outside_store:
  "map fst (entries beside_server) = []
   \<and> download_handler never_raises never_raises beside_server ''../server.js'' = SendFile ''../server.js''
   \<and> download_handler never_raises never_raises beside_server ''missing.txt''
        = Json 404 (JObject [(''error'', JString ''File not found'')])
   \<and> download_handler never_raises transfer_fails abc_dir ''a.txt'' = Next (Error ''EIO: i/o error, read'')"
  by (simp add: download_handler_def existsSync_def lookup_def beside_server_def abc_dir_def
        never_raises_def transfer_fails_def file_not_found_def)

section \<open>Start-up and the health route\<close>

text \<open>
  Claim C3. The initialisation of the blob storage fails and the process is serving all
  the same. Outside production mode the health route answers \<open>fallback\<close> and the list
  request is answered from the upload directory. In production mode with a build of the
  front end the route \<^verbatim>\<open>app.get('*', ...)\<close> was registered before the routes of
  \<^verbatim>\<open>startServer\<close>: the health, list and download requests are answered 404 by it and never
  reach their handlers; only the clear-cache request, a POST, does.
\<close>

theorem blob_init_failure_production:
  "main production_blob_down =
     Serving \<lparr>blobStorageInitialized = False,
              routes = [ClientRouting, FallbackFileRoutes, HealthRoute], listening = True\<rparr>
   \<and> request_to production_blob_down no_build_routes never_raises never_raises Health abc_dir
        = Some (Text 404 ''Not found'', abc_dir)
   \<and> request_to production_blob_down no_build_routes never_raises never_raises (Files ListFiles) abc_dir
        = Some (Text 404 ''Not found'', abc_dir)
   \<and> request_to production_blob_down no_build_routes never_raises never_raises
        (Files (DownloadFile ''a.txt'')) abc_dir
        = Some (Text 404 ''Not found'', abc_dir)
   \<and> request_to production_blob_down no_build_routes never_raises never_raises (Files ClearCache) no_uploads
        = Some (Json 200 (JObject [(''message'', JString ''No cache to clear'')]), no_uploads)
   \<and> request_to blob_down no_build_routes never_raises never_raises Health abc_dir
        = Some (Json 200 (JObject [(''status'', JString ''ok''), (''blobStorage'', JString ''fallback'')]),
                abc_dir)
   \<and> request_to blob_down no_build_routes never_raises never_raises (Files ListFiles) abc_dir
        = Some (Json 200 (JArray
             [JObject [(''filename'', JString ''a.txt''), (''size'', JNumber 10), (''createdAt'', JDate 100)],
              JObject [(''filename'', JString ''b.txt''), (''size'', JNumber 20), (''createdAt'', JDate 300)]]),
                abc_dir)"
proof -
  have m1: "main production_blob_down =
     Serving \<lparr>blobStorageInitialized = False,
              routes = [ClientRouting, FallbackFileRoutes, HealthRoute], listening = True\<rparr>"
    by (simp add: main_def startServer_def load_module_def production_blob_down_def blob_down_def)
  have m2: "main blob_down =
     Serving \<lparr>blobStorageInitialized = False,
              routes = [FallbackFileRoutes, HealthRoute], listening = True\<rparr>"
    by (simp add: main_def startServer_def load_module_def blob_down_def)
  have l: "list_handler abc_dir = Json 200 (JArray
             [JObject [(''filename'', JString ''a.txt''), (''size'', JNumber 10), (''createdAt'', JDate 100)],
              JObject [(''filename'', JString ''b.txt''), (''size'', JNumber 20), (''createdAt'', JDate 300)]])"
    by (simp add: list_handler_def readdirSync_def abc_dir_def startsWith_def statSync_def lookup_def
          plain_file_def file_descriptor_def)
  have c: "clear_cache_handler no_uploads
      = (Json 200 (JObject [(''message'', JString ''No cache to clear'')]), no_uploads)"
    by (simp add: clear_cache_handler_def existsSync_uploadsDir_def no_uploads_def)
  show ?thesis
    unfolding request_to_def m1 m2
    by (simp add: serve_def client_routing_handler_def startsWith_def health_handler_def l c
          no_build_routes_def never_raises_def)
qed

end
